theory Spec2Isabelle
  imports Main "HOL-Library.Word"
begin

text \<open>
  The \<open>ir.http\<close> extension of the web client (\<open>addons/web/models/ir_http.py\<close>): the debug
  mode kept in the session, the session information sent to the web client, and the
  responses that serve binary content and images. The methods are modelled as functions
  of what they read: the session, the arguments, and the functions of the ORM, of other
  modules and of the standard library, which are parameters. A method that writes the
  session returns the new session; a method that can raise returns a sum, \<open>Inl\<close> the
  exception.
\<close>

section \<open>Python values\<close>

text \<open>
  The values that travel through this module: \<open>None\<close>, booleans, integers, strings, lists
  and dictionaries. A dictionary is the list of its items in insertion order, its keys
  (integers or strings here) pairwise distinct.
\<close>

type_synonym bytes = "8 word list"

datatype pykey = KInt int | KStr string

datatype pyval =
    PNone
  | PBool bool
  | PInt int
  | PStr string
  | PList "pyval list"
  | PDict "(pykey \<times> pyval) list"

type_synonym pydict = "(pykey \<times> pyval) list"

text \<open>Exceptions, all of them instances of Python's \<open>Exception\<close> class.\<close>

datatype exn = TypeError | ValueError | KeyError pykey | OSError string | Raised string

text \<open>Truth value testing (\<open>if x\<close>, \<open>not x\<close>, \<open>x or y\<close>, \<open>x and y\<close>).\<close>

fun truthy :: "pyval \<Rightarrow> bool" where
  "truthy PNone = False"
| "truthy (PBool b) = b"
| "truthy (PInt i) = (i \<noteq> 0)"
| "truthy (PStr s) = (s \<noteq> [])"
| "truthy (PList xs) = (xs \<noteq> [])"
| "truthy (PDict d) = (d \<noteq> [])"

text \<open>\<open>d.get(k)\<close> as an option, \<open>d[k]\<close> with its \<open>KeyError\<close>, and \<open>d[k] = v\<close>, which
  replaces the value of a key that is present and appends a new key at the end.\<close>

fun dict_get :: "(pykey \<times> 'a) list \<Rightarrow> pykey \<Rightarrow> 'a option" where
  "dict_get [] k = None"
| "dict_get ((k', v) # d) k = (if k' = k then Some v else dict_get d k)"

definition dict_get_or_none :: "pydict \<Rightarrow> pykey \<Rightarrow> pyval" where
  "dict_get_or_none d k = (case dict_get d k of None \<Rightarrow> PNone | Some v \<Rightarrow> v)"

definition dict_item :: "pydict \<Rightarrow> pykey \<Rightarrow> exn + pyval" where
  "dict_item d k = (case dict_get d k of None \<Rightarrow> Inl (KeyError k) | Some v \<Rightarrow> Inr v)"

fun dict_set :: "(pykey \<times> 'a) list \<Rightarrow> pykey \<Rightarrow> 'a \<Rightarrow> (pykey \<times> 'a) list" where
  "dict_set [] k v = [(k, v)]"
| "dict_set ((k', v') # d) k v = (if k' = k then (k', v) # d else (k', v') # dict_set d k v)"

text \<open>\<open>d.update(e)\<close>, and a dictionary display or comprehension \<open>{k: v for ...}\<close>, which
  stores its items from left to right into an empty dictionary.\<close>

definition dict_update :: "(pykey \<times> 'a) list \<Rightarrow> (pykey \<times> 'a) list \<Rightarrow> (pykey \<times> 'a) list" where
  "dict_update d e = foldl (\<lambda>acc (k, v). dict_set acc k v) d e"

definition dict_of :: "(pykey \<times> 'a) list \<Rightarrow> (pykey \<times> 'a) list" where
  "dict_of items = dict_update [] items"

text \<open>
  \<open>a == b\<close>: \<open>True == 1\<close> and \<open>False == 0\<close>, lists compare item by item, dictionaries
  compare as sets of items, whatever their insertion order.
\<close>

function (sequential) py_eq :: "pyval \<Rightarrow> pyval \<Rightarrow> bool" where
  "py_eq PNone PNone = True"
| "py_eq (PBool a) (PBool b) = (a = b)"
| "py_eq (PBool a) (PInt j) = ((if a then 1 else 0) = j)"
| "py_eq (PInt i) (PBool b) = (i = (if b then 1 else 0))"
| "py_eq (PInt i) (PInt j) = (i = j)"
| "py_eq (PStr s) (PStr t) = (s = t)"
| "py_eq (PList xs) (PList ys) = list_all2 py_eq xs ys"
| "py_eq (PDict d) (PDict e) =
     (length d = length e \<and>
      list_all (\<lambda>k. case dict_get d k of
                      None \<Rightarrow> False
                    | Some v \<Rightarrow> (case dict_get e k of None \<Rightarrow> False | Some w \<Rightarrow> py_eq v w))
               (map fst d))"
| "py_eq _ _ = False"
  by pat_completeness auto
termination
proof -
  have item_size: "size v < Suc (size_list (size_prod (\<lambda>x. 0) size) d)"
    if "dict_get d k = Some v" for d :: pydict and k v
    using that by (induction d) (auto split: if_splits)
  have elem_size: "size x < Suc (size_list size xs)" if "x \<in> set xs" for x :: pyval and xs
    using that by (induction xs) auto
  show ?thesis
    by (relation "measure (\<lambda>(a, b). size a)") (auto dest: item_size elem_size)
qed

section \<open>Python strings: \<open>str.split\<close> and \<open>str.join\<close> on a one-character separator\<close>

text \<open>
  \<open>s.split(sep)\<close> with an explicit separator cuts \<open>s\<close> at every occurrence of it and
  never returns an empty list: \<open>''.split(',') == ['']\<close>, \<open>','.split(',') == ['', '']\<close>.
  (The case of an empty list of words below is never taken, see \<open>py_split_nonempty\<close>.)
\<close>

fun py_split :: "char \<Rightarrow> string \<Rightarrow> string list" where
  "py_split sep [] = [[]]"
| "py_split sep (c # cs) =
     (if c = sep then [] # py_split sep cs
      else (case py_split sep cs of
              [] \<Rightarrow> [[c]]
            | w # ws \<Rightarrow> (c # w) # ws))"

text \<open>\<open>sep.join(words)\<close>.\<close>

fun py_join :: "char \<Rightarrow> string list \<Rightarrow> string" where
  "py_join sep [] = []"
| "py_join sep [w] = w"
| "py_join sep (w # v # ws) = w @ sep # py_join sep (v # ws)"

section \<open>Debug mode (\<open>_handle_debug\<close>)\<close>

definition ALLOWED_DEBUG_MODES :: "string list" where
  "ALLOWED_DEBUG_MODES = ['''', ''1'', ''assets'', ''tests'']"

text \<open>
  The attributes of \<open>request.session\<close> that this module reads or writes. Debug mode
  "is stored in session and should always be a string".
\<close>

record session =
  debug :: string
  uid :: pyval
  session_context :: pydict
  profile_session :: pyval
  profile_collectors :: pyval
  profile_params :: pyval

text \<open>
  \<open>request.httprequest.args\<close> is a multi-dictionary of the query string: the pairs in the
  order of the URL; \<open>args.get(k)\<close> is the first value stored under \<open>k\<close>, \<open>None\<close> without one.
\<close>

type_synonym query_args = "(string \<times> string) list"

definition args_get :: "query_args \<Rightarrow> string \<Rightarrow> string option" where
  "args_get args k = map_of args k"

text \<open>
  The generator expression of \<open>_handle_debug\<close>, for one \<open>mode\<close>. \<open>str2bool\<close> lives in
  \<open>odoo.tools.misc\<close>, outside this module; it is a parameter, called as the code
  calls it, with the mode as the string and as the default.
\<close>

definition debug_mode :: "(string \<Rightarrow> string \<Rightarrow> bool) \<Rightarrow> string \<Rightarrow> string" where
  "debug_mode str2bool mode =
     (if mode \<in> set ALLOWED_DEBUG_MODES then mode
      else if str2bool mode mode then ''1''
      else '''')"

text \<open>\<open>debug or ''\<close>: an empty string is falsy, so the result is the string itself.\<close>

definition or_empty :: "string \<Rightarrow> string" where
  "or_empty s = (if s \<noteq> [] then s else [])"

definition handle_debug ::
  "(string \<Rightarrow> string \<Rightarrow> bool) \<Rightarrow> query_args \<Rightarrow> session \<Rightarrow> session" where
  "handle_debug str2bool args sess =
     (case args_get args ''debug'' of
        None \<Rightarrow> sess
      | Some dbg \<Rightarrow>
          sess\<lparr>debug := py_join CHR '','' (map (debug_mode str2bool) (py_split CHR '','' (or_empty dbg)))\<rparr>)"

section \<open>Responses\<close>

type_synonym headers = "(string \<times> pyval) list"

text \<open>
  A response: its body, its headers and its status code, or the generic not-found
  response.
\<close>

datatype response = Response bytes headers int | NotFound

text \<open>
  Modelled from the spec: \<open>request.make_response\<close> of \<open>odoo.http\<close>, which is not in this
  module. A response carries "raw bytes with content-type/length headers";
  \<open>make_response(content, headers)\<close> builds it from exactly these bytes and headers, with the
  status 200 of a fresh response, which the caller may overwrite
  (\<open>response.status_code = status\<close>).
\<close>

definition make_response :: "bytes \<Rightarrow> headers \<Rightarrow> response" where
  "make_response content hdrs = Response content hdrs 200"

fun set_status_code :: "response \<Rightarrow> int \<Rightarrow> response" where
  "set_status_code (Response content hdrs _) status = Response content hdrs status"
| "set_status_code NotFound status = NotFound"

text \<open>
  Modelled from the spec: the status of \<open>request.not_found()\<close> of \<open>odoo.http\<close>, the 'generic
  "not found" HTTP response', is 404.
\<close>

fun status_code :: "response \<Rightarrow> int" where
  "status_code (Response _ _ status) = status"
| "status_code NotFound = 404"

fun response_headers :: "response \<Rightarrow> headers" where
  "response_headers (Response _ hdrs _) = hdrs"
| "response_headers NotFound = []"

fun response_body :: "response \<Rightarrow> bytes" where
  "response_body (Response content _ _) = content"
| "response_body NotFound = []"

section \<open>Binary and image content\<close>

text \<open>The keyword arguments with which this module calls \<open>binary_content\<close>;
  \<open>default_mimetype\<close> is \<open>None\<close> where the call does not pass it.\<close>

record bc_args =
  bc_xmlid :: pyval
  bc_model :: string
  bc_id :: pyval
  bc_field :: string
  bc_unique :: pyval
  bc_filename :: pyval
  bc_filename_field :: pyval
  bc_download :: pyval
  bc_mimetype :: pyval
  bc_default_mimetype :: "string option"
  bc_access_token :: pyval

text \<open>
  What the image and content methods call outside this file: the methods \<open>binary_content\<close>
  and \<open>_response_by_status\<close> of the inherited \<open>ir.http\<close>, the registry (\<open>model in self.env\<close>,
  \<open>_get_placeholder_filename\<close>), \<open>odoo.tools\<close> (\<open>file_open\<close> with the extension filter of
  \<open>_placeholder\<close>, \<open>image_process\<close>, \<open>image_guess_size_from_field_name\<close>),
  \<open>http.set_safe_image_headers\<close>, and the parsing of a string by the builtin \<open>int\<close>.
  Content is a byte string or \<open>None\<close>.
\<close>

record img_env =
  binary_content :: "bc_args \<Rightarrow> exn + (int \<times> headers \<times> bytes option)"
  response_by_status :: "int \<Rightarrow> headers \<Rightarrow> bytes option \<Rightarrow> response"
  has_model :: "string \<Rightarrow> bool"
  get_placeholder_filename :: "string \<Rightarrow> string \<Rightarrow> pyval"
  file_open :: "string \<Rightarrow> exn + bytes"
  image_guess_size_from_field_name :: "string \<Rightarrow> int \<times> int"
  image_process :: "bytes \<Rightarrow> int \<times> int \<Rightarrow> pyval \<Rightarrow> int \<Rightarrow> exn + bytes"
  set_safe_image_headers :: "headers \<Rightarrow> bytes \<Rightarrow> headers"
  img_int_of_str :: "string \<Rightarrow> int option"

text \<open>The builtin \<open>int(x)\<close>: a boolean or an integer converts, a string is parsed (by the
  given parser, \<open>ValueError\<close> when it rejects the string), anything else is a \<open>TypeError\<close>.\<close>

fun py_int :: "(string \<Rightarrow> int option) \<Rightarrow> pyval \<Rightarrow> exn + int" where
  "py_int parse (PInt i) = Inr i"
| "py_int parse (PBool b) = Inr (if b then 1 else 0)"
| "py_int parse (PStr s) = (case parse s of None \<Rightarrow> Inl ValueError | Some i \<Rightarrow> Inr i)"
| "py_int parse _ = Inl TypeError"

text \<open>Truth value of content: \<open>None\<close> and the empty byte string are falsy.\<close>

fun bytes_truthy :: "bytes option \<Rightarrow> bool" where
  "bytes_truthy None = False"
| "bytes_truthy (Some b) = (b \<noteq> [])"

record common_args =
  xmlid :: pyval
  model :: string
  res_id :: pyval
  field :: string
  unique :: pyval
  filename :: pyval
  filename_field :: pyval
  download :: pyval
  mimetype :: pyval
  access_token :: pyval
  token :: pyval

definition get_content_common :: "img_env \<Rightarrow> common_args \<Rightarrow> exn + response" where
  "get_content_common env a =
     (case binary_content env
             \<lparr>bc_xmlid = xmlid a, bc_model = model a, bc_id = res_id a, bc_field = field a,
              bc_unique = unique a, bc_filename = filename a,
              bc_filename_field = filename_field a, bc_download = download a,
              bc_mimetype = mimetype a, bc_default_mimetype = None,
              bc_access_token = access_token a\<rparr> of
        Inl e \<Rightarrow> Inl e
      | Inr (status, hdrs, content) \<Rightarrow>
          if status \<noteq> 200 then Inr (response_by_status env status hdrs content)
          else (case content of
                  None \<Rightarrow> Inl TypeError
                | Some b \<Rightarrow>
                    Inr (make_response b (hdrs @ [(''Content-Length'', PInt (int (length b)))]))))"

text \<open>\<open>_placeholder(image)\<close>: the file named by \<open>image\<close>, the static placeholder when \<open>image\<close>
  is falsy.\<close>

definition placeholder :: "img_env \<Rightarrow> pyval \<Rightarrow> exn + bytes" where
  "placeholder env img =
     (case (if \<not> truthy img then PStr ''web/static/img/placeholder.png'' else img) of
        PStr path \<Rightarrow> file_open env path
      | _ \<Rightarrow> Inl TypeError)"

text \<open>The body of the \<open>try\<close> statement: the three \<open>int\<close> conversions, in argument order,
  then \<open>image_process\<close>.\<close>

definition try_image_process ::
  "img_env \<Rightarrow> bytes \<Rightarrow> pyval \<Rightarrow> pyval \<Rightarrow> pyval \<Rightarrow> pyval \<Rightarrow> exn + bytes" where
  "try_image_process env img width height crop quality =
     (case py_int (img_int_of_str env) width of
        Inl e \<Rightarrow> Inl e
      | Inr w \<Rightarrow>
          (case py_int (img_int_of_str env) height of
             Inl e \<Rightarrow> Inl e
           | Inr h \<Rightarrow>
               (case py_int (img_int_of_str env) quality of
                  Inl e \<Rightarrow> Inl e
                | Inr q \<Rightarrow> image_process env img (w, h) crop q)))"

text \<open>The block under \<open>if not image\<close>: the new \<open>image\<close>, \<open>status\<close>, \<open>width\<close> and \<open>height\<close>.\<close>

definition missing_image ::
  "img_env \<Rightarrow> string \<Rightarrow> string \<Rightarrow> pyval \<Rightarrow> pyval \<Rightarrow> exn + (bytes \<times> int \<times> pyval \<times> pyval)" where
  "missing_image env mdl fld width height =
     (let placeholder_filename =
            (if has_model env mdl then get_placeholder_filename env mdl fld else PBool False)
      in case placeholder env placeholder_filename of
           Inl e \<Rightarrow> Inl e
         | Inr img \<Rightarrow>
             if \<not> (truthy width \<or> truthy height)
             then (case image_guess_size_from_field_name env fld of
                     (w, h) \<Rightarrow> Inr (img, 200, PInt w, PInt h))
             else Inr (img, 200, width, height))"

text \<open>The image that goes to \<open>image_process\<close>, with the status and the size that go with
  it: those given when the image is truthy, those of the block above when it is not.\<close>

definition image_or_placeholder ::
  "img_env \<Rightarrow> int \<Rightarrow> bytes option \<Rightarrow> string \<Rightarrow> string \<Rightarrow> pyval \<Rightarrow> pyval \<Rightarrow>
   exn + (bytes \<times> int \<times> pyval \<times> pyval)" where
  "image_or_placeholder env status img mdl fld width height =
     (case img of
        Some b \<Rightarrow> if b \<noteq> [] then Inr (b, status, width, height)
                  else missing_image env mdl fld width height
      | None \<Rightarrow> missing_image env mdl fld width height)"

definition content_image_get_response ::
  "img_env \<Rightarrow> int \<Rightarrow> headers \<Rightarrow> bytes option \<Rightarrow> string \<Rightarrow> string \<Rightarrow> pyval \<Rightarrow>
   pyval \<Rightarrow> pyval \<Rightarrow> pyval \<Rightarrow> pyval \<Rightarrow> exn + response" where
  "content_image_get_response env status hdrs img mdl fld dl width height crop quality =
     (if status \<in> set [301, 304] \<or> (status \<noteq> 200 \<and> truthy dl)
      then Inr (response_by_status env status hdrs img)
      else
        (case image_or_placeholder env status img mdl fld width height of
           Inl e \<Rightarrow> Inl e
         | Inr (img', status', width', height') \<Rightarrow>
             (case try_image_process env img' width' height' crop quality of
                Inl e \<Rightarrow> Inr NotFound
              | Inr content \<Rightarrow>
                  Inr (set_status_code
                         (make_response content (set_safe_image_headers env hdrs content))
                         status'))))"

record image_args =
  img_xmlid :: pyval
  img_model :: string
  img_res_id :: pyval
  img_field :: string
  img_filename_field :: pyval
  img_unique :: pyval
  img_filename :: pyval
  img_mimetype :: pyval
  img_download :: pyval
  img_width :: pyval
  img_height :: pyval
  img_crop :: pyval
  img_quality :: pyval
  img_access_token :: pyval

definition content_image :: "img_env \<Rightarrow> image_args \<Rightarrow> exn + response" where
  "content_image env a =
     (case binary_content env
             \<lparr>bc_xmlid = img_xmlid a, bc_model = img_model a, bc_id = img_res_id a,
              bc_field = img_field a, bc_unique = img_unique a, bc_filename = img_filename a,
              bc_filename_field = img_filename_field a, bc_download = img_download a,
              bc_mimetype = img_mimetype a, bc_default_mimetype = Some ''image/png'',
              bc_access_token = img_access_token a\<rparr> of
        Inl e \<Rightarrow> Inl e
      | Inr (status, hdrs, img) \<Rightarrow>
          content_image_get_response env status hdrs img (img_model a) (img_field a)
            (img_download a) (img_width a) (img_height a) (img_crop a) (img_quality a))"

section \<open>Session info\<close>

text \<open>\<open>str(k)\<close> of a dictionary key: a string is itself, an integer its decimal notation.\<close>

fun decimal :: "nat \<Rightarrow> string" where
  "decimal n =
     (if n < 10 then [char_of (48 + n)]
      else decimal (n div 10) @ [char_of (48 + n mod 10)])"

definition str_of_int :: "int \<Rightarrow> string" where
  "str_of_int i = (if i < 0 then CHR ''-'' # decimal (nat (- i)) else decimal (nat i))"

fun py_str :: "pykey \<Rightarrow> string" where
  "py_str (KStr s) = s"
| "py_str (KInt i) = str_of_int i"

text \<open>A record of \<open>res.company\<close> and the current user (\<open>self.env.user\<close>), with the fields and
  methods \<open>session_info\<close> reads. A many2one field is the id of its record, \<open>None\<close> for the
  empty recordset, whose \<open>.id\<close> is \<open>False\<close>.\<close>

record company =
  comp_id :: int
  comp_name :: pyval
  comp_sequence :: pyval

record user =
  user_name :: pyval
  user_login :: pyval
  partner_id :: "int option"
  partner_display_name :: pyval
  company_id :: "int option"
  company_ids :: "company list"
  action_id :: "int option"
  is_system :: bool
  is_admin :: bool
  has_group :: "string \<Rightarrow> bool"

fun record_id :: "int option \<Rightarrow> pyval" where
  "record_id None = PBool False"
| "record_id (Some i) = PInt i"

text \<open>A row of \<open>Currency.search([]).read(['symbol', 'position', 'decimal_places'])\<close>: \<open>read\<close>
  returns one dictionary per record, with the key \<open>'id'\<close> and the fields asked for.\<close>

record currency_row =
  cur_id :: int
  cur_symbol :: pyval
  cur_position :: pyval
  cur_decimal_places :: pyval

text \<open>
  What \<open>session_info\<close> and \<open>get_currencies\<close> call outside this file: the ORM (the user, the
  user's context, configuration parameters with their default, the translations hash, the
  currencies, the menus), \<open>odoo.service.common.exp_version\<close>, \<open>odoo.conf\<close> and the registry,
  the checksum of the qweb templates, and the standard library: \<open>json.dumps\<close> with
  \<open>default=ustr, sort_keys=True\<close>, \<open>str.encode\<close> (UTF-8), \<open>hashlib.sha512(...).hexdigest()\<close>
  and the parsing of a string by \<open>int\<close>.
\<close>

record sess_env =
  env_user :: user
  exp_version :: pydict
  context_get :: pydict
  get_param :: "string \<Rightarrow> pyval \<Rightarrow> pyval"
  server_wide_modules :: "pyval list option"
  request_db :: "string option"
  init_modules :: "pyval list"
  dbname :: pyval
  get_web_translations_hash :: "pyval list \<Rightarrow> pyval \<Rightarrow> pyval"
  currency_rows :: "currency_row list"
  get_qweb_templates_checksum :: "string \<Rightarrow> string \<Rightarrow> pyval"
  load_menus :: "string \<Rightarrow> pydict"
  json_dumps :: "pydict \<Rightarrow> exn + string"
  encode :: "string \<Rightarrow> bytes"
  sha512_hexdigest :: "bytes \<Rightarrow> string"
  int_of_str :: "string \<Rightarrow> int option"

definition currency_entry :: "currency_row \<Rightarrow> pykey \<times> pyval" where
  "currency_entry c =
     (KInt (cur_id c),
      PDict [(KStr ''symbol'', cur_symbol c),
             (KStr ''position'', cur_position c),
             (KStr ''digits'', PList [PInt 69, cur_decimal_places c])])"

definition get_currencies :: "sess_env \<Rightarrow> pydict" where
  "get_currencies env = dict_of (map currency_entry (currency_rows env))"

text \<open>\<open>{str(k): v for k, v in menus.items()}\<close>\<close>

definition ordered_menus :: "pydict \<Rightarrow> pydict" where
  "ordered_menus menus = dict_of (map (\<lambda>(k, v). (KStr (py_str k), v)) menus)"

definition company_entry :: "company \<Rightarrow> pykey \<times> pyval" where
  "company_entry c =
     (KInt (comp_id c),
      PDict [(KStr ''id'', PInt (comp_id c)),
             (KStr ''name'', comp_name c),
             (KStr ''sequence'', comp_sequence c)])"

text \<open>The first statements of \<open>session_info\<close>: the user context, and the session with the
  context written back.\<close>

definition sync_context :: "sess_env \<Rightarrow> session \<Rightarrow> pydict \<times> session" where
  "sync_context env sess =
     (if truthy (uid sess) then
        (let user_context = context_get env
         in if \<not> py_eq (PDict user_context) (PDict (session_context sess))
            then (user_context, sess\<lparr>session_context := user_context\<rparr>)
            else (user_context, sess))
      else ([], sess))"

text \<open>\<open>mods\<close>: \<open>odoo.conf.server_wide_modules or []\<close>, behind the registry's modules when
  there is a database.\<close>

definition mods :: "sess_env \<Rightarrow> pyval list" where
  "mods env =
     (let m = (case server_wide_modules env of
                 None \<Rightarrow> []
               | Some l \<Rightarrow> if l \<noteq> [] then l else [])
      in case request_db env of
           None \<Rightarrow> m
         | Some db \<Rightarrow> if db \<noteq> [] then init_modules env @ m else m)"

text \<open>The part of \<open>session_info\<close> under \<open>if self.env.user.has_group('base.group_user')\<close>.\<close>

definition internal_user_info ::
  "sess_env \<Rightarrow> session \<Rightarrow> pydict \<Rightarrow> pydict \<Rightarrow> exn + pydict" where
  "internal_user_info env sess cache_hashes info =
     (let usr = env_user env;
          qweb_checksum = get_qweb_templates_checksum env (debug sess) ''web.assets_qweb'';
          menus = load_menus env (debug sess)
      in case json_dumps env (ordered_menus menus) of
           Inl e \<Rightarrow> Inl e
         | Inr menu_json \<Rightarrow>
             (let menu_json_utf8 = encode env menu_json;
                  cache_hashes' = dict_update cache_hashes
                    [(KStr ''load_menus'', PStr (take 64 (sha512_hexdigest env menu_json_utf8))),
                     (KStr ''qweb'', qweb_checksum)];
                  info' = dict_set info (KStr ''cache_hashes'') (PDict cache_hashes')
              in Inr (dict_update info'
                   [(KStr ''user_companies'',
                     PDict [(KStr ''current_company'', record_id (company_id usr)),
                            (KStr ''allowed_companies'',
                             PDict (dict_of (map company_entry (company_ids usr))))]),
                    (KStr ''show_effect'', PBool True),
                    (KStr ''display_switch_company_menu'',
                     PBool (has_group usr ''base.group_multi_company''
                            \<and> length (company_ids usr) > 1))])))"

text \<open>The rest of \<open>session_info\<close>, which reads the session and writes nothing. The keys
  of the dictionary display are pairwise distinct, so the dictionary is the list of its
  items; the conversions and the lookup that can raise are evaluated in the order of the
  source.\<close>

definition build_session_info :: "sess_env \<Rightarrow> session \<Rightarrow> pydict \<Rightarrow> exn + pydict" where
  "build_session_info env sess' user_context =
     (let usr = env_user env;
          session_uid = uid sess';
          version_info = exp_version env
      in case py_int (int_of_str env)
                (get_param env ''web.max_file_upload_size'' (PInt (128 * 1024 * 1024))) of
           Inl e \<Rightarrow> Inl e
         | Inr max_file_upload_size \<Rightarrow>
        (case py_int (int_of_str env) (get_param env ''web.active_ids_limit'' (PStr ''20000'')) of
           Inl e \<Rightarrow> Inl e
         | Inr active_ids_limit \<Rightarrow>
        (case (if truthy session_uid
               then (case dict_item (session_context sess') (KStr ''lang'') of
                       Inl e \<Rightarrow> Inl e
                     | Inr lang \<Rightarrow> Inr (get_web_translations_hash env (mods env) lang))
               else Inr PNone) of
           Inl e \<Rightarrow> Inl e
         | Inr translations \<Rightarrow>
        (let cache_hashes = [(KStr ''translations'', translations)];
             info =
               [(KStr ''uid'', session_uid),
                (KStr ''is_system'', PBool (if truthy session_uid then is_system usr else False)),
                (KStr ''is_admin'', PBool (if truthy session_uid then is_admin usr else False)),
                (KStr ''user_context'', PDict user_context),
                (KStr ''db'', dbname env),
                (KStr ''server_version'', dict_get_or_none version_info (KStr ''server_version'')),
                (KStr ''server_version_info'',
                 dict_get_or_none version_info (KStr ''server_version_info'')),
                (KStr ''support_url'', PStr ''https://www.odoo.com/buy''),
                (KStr ''name'', user_name usr),
                (KStr ''username'', user_login usr),
                (KStr ''partner_display_name'', partner_display_name usr),
                (KStr ''company_id'',
                 if truthy session_uid then record_id (company_id usr) else PNone),
                (KStr ''partner_id'',
                 if truthy session_uid \<and> partner_id usr \<noteq> None
                 then record_id (partner_id usr) else PNone),
                (KStr ''web.base.url'', get_param env ''web.base.url'' (PStr [])),
                (KStr ''active_ids_limit'', PInt active_ids_limit),
                (KStr ''profile_session'', profile_session sess'),
                (KStr ''profile_collectors'', profile_collectors sess'),
                (KStr ''profile_params'', profile_params sess'),
                (KStr ''max_file_upload_size'', PInt max_file_upload_size),
                (KStr ''home_action_id'', record_id (action_id usr)),
                (KStr ''cache_hashes'', PDict cache_hashes),
                (KStr ''currencies'', PDict (get_currencies env))]
         in if has_group usr ''base.group_user''
            then internal_user_info env sess' cache_hashes info
            else Inr info))))"

text \<open>\<open>session_info\<close>: the session as the call leaves it, also when the call raises, and
  the dictionary returned or the exception raised.\<close>

definition session_info :: "sess_env \<Rightarrow> session \<Rightarrow> session \<times> (exn + pydict)" where
  "session_info env sess =
     (case sync_context env sess of
        (user_context, sess') \<Rightarrow> (sess', build_session_info env sess' user_context))"

section \<open>The claimed debug mode, and what the placeholder block reads\<close>

text \<open>
  The normalisation of one component of the \<open>debug\<close> parameter as the specification words
  it: a component that is one of \<open>''\<close>, \<open>'1'\<close>, \<open>'assets'\<close>, \<open>'tests'\<close> is kept, any other
  component that \<open>str2bool\<close> (with the component as default) finds truthy becomes \<open>'1'\<close>, any
  other becomes \<open>''\<close>. It is compared with \<open>debug_mode\<close> below.
\<close>

definition claimed_debug_mode :: "(string \<Rightarrow> string \<Rightarrow> bool) \<Rightarrow> string \<Rightarrow> string" where
  "claimed_debug_mode str2bool component =
     (if component = '''' \<or> component = ''1'' \<or> component = ''assets'' \<or> component = ''tests''
      then component
      else if str2bool component component then ''1'' else '''')"

text \<open>
  The file \<open>_placeholder\<close> opens for a missing image of a model and field: the model's
  placeholder file name when the model is in the registry and names one, the static file
  otherwise. And the size that goes to \<open>image_process\<close> with it: the size asked for, or the
  size guessed from the field name when neither width nor height is given. Both are read
  off \<open>missing_image\<close> (lemma \<open>missing_image_eq\<close>).
\<close>

definition placeholder_path :: "img_env \<Rightarrow> string \<Rightarrow> string \<Rightarrow> pyval" where
  "placeholder_path env mdl fld =
     (if has_model env mdl \<and> truthy (get_placeholder_filename env mdl fld)
      then get_placeholder_filename env mdl fld
      else PStr ''web/static/img/placeholder.png'')"

definition placeholder_size :: "img_env \<Rightarrow> string \<Rightarrow> pyval \<Rightarrow> pyval \<Rightarrow> pyval \<times> pyval" where
  "placeholder_size env fld width height =
     (if truthy width \<or> truthy height then (width, height)
      else (PInt (fst (image_guess_size_from_field_name env fld)),
            PInt (snd (image_guess_size_from_field_name env fld))))"

section \<open>Example requests and environments\<close>

text \<open>
  Concrete instances of the parameters, on which the theorems below are evaluated. The
  functions of other modules and of the standard library are small stand-ins:
  \<open>example_str2bool\<close> knows the usual yes/no words and falls back on the truth value of its
  default, \<open>example_int_of_str\<close> parses strings of decimal digits and rejects the rest.
  \<open>json.dumps\<close>, \<open>encode\<close> and the digest have fillers in \<open>example_sess_env\<close> that no example
  reads: the example for the menus hash replaces them by arbitrary functions.
\<close>

definition example_str2bool :: "string \<Rightarrow> string \<Rightarrow> bool" where
  "example_str2bool s dflt =
     (if s \<in> set [''y'', ''yes'', ''1'', ''true'', ''t'', ''on''] then True
      else if s \<in> set [''n'', ''no'', ''0'', ''false'', ''f'', ''off''] then False
      else dflt \<noteq> [])"

definition example_int_of_str :: "string \<Rightarrow> int option" where
  "example_int_of_str s =
     (if s \<noteq> [] \<and> list_all (\<lambda>c. c \<in> set ''0123456789'') s
      then Some (foldl (\<lambda>a c. 10 * a + (of_char c - 48)) 0 s)
      else None)"

definition example_session :: session where
  "example_session =
     \<lparr>debug = ''assets'', uid = PInt 2,
      session_context =
        [(KStr ''lang'', PStr ''en_US''), (KStr ''tz'', PBool False), (KStr ''uid'', PInt 2)],
      profile_session = PNone, profile_collectors = PNone, profile_params = PNone\<rparr>"

definition example_img_env :: img_env where
  "example_img_env =
     \<lparr>binary_content = (\<lambda>a.
        if bc_id a = PInt 7
        then Inr (200, [(''Content-Type'', PStr ''image/png'')], Some [137, 80, 78, 71, 13])
        else Inr (404, [], None)),
      response_by_status = (\<lambda>status hdrs content.
        if status = 404 then NotFound
        else Response (case content of None \<Rightarrow> [] | Some b \<Rightarrow> b) hdrs status),
      has_model = (\<lambda>m. m \<in> set [''ir.attachment'', ''res.partner'']),
      get_placeholder_filename = (\<lambda>m f.
        if m = ''res.partner'' then PStr ''base/static/img/avatar_grey.png'' else PBool False),
      file_open = (\<lambda>path.
        if path = ''web/static/img/placeholder.png'' then Inr [137, 80, 1]
        else if path = ''base/static/img/avatar_grey.png'' then Inr [137, 80, 2, 2]
        else Inl (OSError path)),
      image_guess_size_from_field_name = (\<lambda>f. if f = ''image_128'' then (128, 128) else (0, 0)),
      image_process = (\<lambda>b size crop quality.
        if b = [0, 0] then Inl (Raised ''cannot identify image'') else Inr b),
      set_safe_image_headers = (\<lambda>hdrs content.
        hdrs @ [(''Content-Length'', PInt (int (length content)))]),
      img_int_of_str = example_int_of_str\<rparr>"

definition example_common_args :: common_args where
  "example_common_args =
     \<lparr>xmlid = PNone, model = ''ir.attachment'', res_id = PInt 7, field = ''datas'',
      unique = PNone, filename = PNone, filename_field = PStr ''name'', download = PNone,
      mimetype = PNone, access_token = PNone, token = PNone\<rparr>"

definition example_user :: user where
  "example_user =
     \<lparr>user_name = PStr ''Mitchell Admin'', user_login = PStr ''admin'', partner_id = Some 3,
      partner_display_name = PStr ''YourCompany, Mitchell Admin'', company_id = Some 1,
      company_ids = [\<lparr>comp_id = 1, comp_name = PStr ''YourCompany'', comp_sequence = PInt 0\<rparr>],
      action_id = None, is_system = True, is_admin = True,
      has_group = (\<lambda>g. g = ''base.group_user'')\<rparr>"

definition example_sess_env :: sess_env where
  "example_sess_env =
     \<lparr>env_user = example_user,
      exp_version = [(KStr ''server_version'', PStr ''15.0''),
                     (KStr ''server_version_info'', PList [PInt 15, PInt 0, PInt 0])],
      context_get =
        [(KStr ''lang'', PStr ''fr_FR''), (KStr ''tz'', PBool False), (KStr ''uid'', PInt 2)],
      get_param = (\<lambda>k dflt. if k = ''web.base.url'' then PStr ''http://localhost:8069'' else dflt),
      server_wide_modules = Some [PStr ''base'', PStr ''web''],
      request_db = Some ''odoo'',
      init_modules = [PStr ''base''],
      dbname = PStr ''odoo'',
      get_web_translations_hash = (\<lambda>ms lang. PStr ''7c4a8d09''),
      currency_rows =
        [\<lparr>cur_id = 1, cur_symbol = PStr ''EUR'', cur_position = PStr ''after'',
          cur_decimal_places = PInt 2\<rparr>,
         \<lparr>cur_id = 2, cur_symbol = PStr ''$'', cur_position = PStr ''before'',
          cur_decimal_places = PInt 2\<rparr>],
      get_qweb_templates_checksum = (\<lambda>dbg bundle. PStr ''3f2a''),
      load_menus = (\<lambda>dbg. [(KStr ''root'', PDict [(KStr ''children'', PList [PInt 5])]),
                           (KInt 5, PDict [(KStr ''name'', PStr ''Settings'')])]),
      json_dumps = (\<lambda>d. Inr []),
      encode = (\<lambda>s. []),
      sha512_hexdigest = (\<lambda>b. []),
      int_of_str = example_int_of_str\<rparr>"

section \<open>Facts about splitting and joining\<close>

lemma py_split_nonempty: "py_split sep s \<noteq> []"
  by (induction s) (auto split: list.splits)

lemma py_split_join:
  "ws \<noteq> [] \<Longrightarrow> \<forall>w \<in> set ws. sep \<notin> set w \<Longrightarrow> py_split sep (py_join sep ws) = ws"
proof (induction sep ws rule: py_join.induct)
  case (1 sep)
  then show ?case by simp
next
  case (2 sep w)
  then show ?case by (induction w) auto
next
  case (3 sep w v ws)
  then have IH: "py_split sep (py_join sep (v # ws)) = v # ws" by simp
  from 3 have "sep \<notin> set w" by simp
  then show ?case using IH by (induction w) auto
qed

lemma or_empty_id: "or_empty s = s"
  by (simp add: or_empty_def)

lemma debug_mode_allowed: "debug_mode f m \<in> set ALLOWED_DEBUG_MODES"
  by (auto simp: debug_mode_def ALLOWED_DEBUG_MODES_def)

lemma debug_mode_no_comma: "CHR '','' \<notin> set (debug_mode f m)"
  by (auto simp: debug_mode_def ALLOWED_DEBUG_MODES_def)

lemma debug_mode_claimed: "debug_mode f = claimed_debug_mode f"
  by (rule ext) (simp add: debug_mode_def claimed_debug_mode_def ALLOWED_DEBUG_MODES_def)

lemma split_stored_debug:
  "py_split CHR '','' (py_join CHR '','' (map (debug_mode f) (py_split CHR '','' s)))
   = map (debug_mode f) (py_split CHR '','' s)"
  by (rule py_split_join) (auto simp: py_split_nonempty debug_mode_no_comma)

section \<open>Debug mode: what \<open>_handle_debug\<close> stores\<close>

text \<open>
  Claim C1. When the query string has a \<open>debug\<close> parameter, \<open>_handle_debug\<close> stores in
  \<open>session.debug\<close> the comma-join of the parameter's comma-separated components, each
  normalised as claimed: one of \<open>''\<close>, \<open>'1'\<close>, \<open>'assets'\<close>, \<open>'tests'\<close> is kept, any other
  component truthy for \<open>str2bool(mode, mode)\<close> becomes \<open>'1'\<close>, any other becomes \<open>''\<close>. Split
  again at the commas, the stored string gives back exactly the normalised components.
\<close>

theorem handle_debug_stores_claimed_modes:
  assumes "args_get args ''debug'' = Some dbg"
  shows "debug (handle_debug str2bool args sess)
           = py_join CHR '','' (map (claimed_debug_mode str2bool) (py_split CHR '','' dbg))
         \<and> py_split CHR '','' (debug (handle_debug str2bool args sess))
           = map (claimed_debug_mode str2bool) (py_split CHR '','' dbg)"
  using assms split_stored_debug [of str2bool dbg]
  by (simp add: handle_debug_def or_empty_id debug_mode_claimed)

theorem handle_debug_stores_claimed_modes_witness:
  "args_get [(''debug'', ''tests,on,,0,x y'')] ''debug'' = Some ''tests,on,,0,x y''
   \<and> debug (handle_debug example_str2bool [(''debug'', ''tests,on,,0,x y'')] example_session)
       = ''tests,1,,,1''"
  using handle_debug_stores_claimed_modes
          [of "[(''debug'', ''tests,on,,0,x y'')]" "''tests,on,,0,x y''"
              example_str2bool example_session]
  by (simp add: args_get_def claimed_debug_mode_def example_str2bool_def)

text \<open>
  Claim C2. After \<open>_handle_debug\<close> has run on a request with a \<open>debug\<close> parameter, every
  comma-separated component of the stored \<open>session.debug\<close> is one of \<open>''\<close>, \<open>'1'\<close>,
  \<open>'assets'\<close>, \<open>'tests'\<close>, whatever the parameter's value and whatever \<open>str2bool\<close> answers.
\<close>

theorem handle_debug_components_allowed:
  assumes "args_get args ''debug'' = Some dbg"
  shows "\<forall>component \<in> set (py_split CHR '','' (debug (handle_debug str2bool args sess))).
           component \<in> {'''', ''1'', ''assets'', ''tests''}"
proof -
  have "py_split CHR '','' (debug (handle_debug str2bool args sess))
          = map (debug_mode str2bool) (py_split CHR '','' dbg)"
    using assms split_stored_debug [of str2bool dbg] by (simp add: handle_debug_def or_empty_id)
  moreover have "debug_mode str2bool m \<in> {'''', ''1'', ''assets'', ''tests''}" for m
    using debug_mode_allowed [of str2bool m] by (simp add: ALLOWED_DEBUG_MODES_def)
  ultimately show ?thesis by auto
qed

theorem handle_debug_components_allowed_witness:
  "args_get [(''debug'', ''off,zz,assets'')] ''debug'' = Some ''off,zz,assets''
   \<and> py_split CHR '',''
        (debug (handle_debug example_str2bool [(''debug'', ''off,zz,assets'')] example_session))
       = ['''', ''1'', ''assets'']
   \<and> set ['''', ''1'', ''assets''] \<subseteq> {'''', ''1'', ''assets'', ''tests''}"
proof -
  have a: "args_get [(''debug'', ''off,zz,assets'')] ''debug'' = Some ''off,zz,assets''"
    by (simp add: args_get_def)
  have s: "py_split CHR '',''
        (debug (handle_debug example_str2bool [(''debug'', ''off,zz,assets'')] example_session))
       = ['''', ''1'', ''assets'']"
    by (simp add: args_get_def handle_debug_def or_empty_def debug_mode_def
          ALLOWED_DEBUG_MODES_def example_str2bool_def)
  show ?thesis
    using handle_debug_components_allowed [OF a, of example_str2bool example_session] a s
    by simp
qed

text \<open>
  Claim C9. When the query string has no \<open>debug\<close> parameter, \<open>_handle_debug\<close> leaves the
  session, and so \<open>session.debug\<close>, as it is; when the parameter is there with an empty
  value, \<open>session.debug\<close> becomes the empty string (and nothing else changes).
\<close>

theorem handle_debug_absent_or_empty:
  "(''debug'' \<notin> fst ` set args \<longrightarrow> handle_debug str2bool args sess = sess)
   \<and> (args_get args ''debug'' = Some [] \<longrightarrow>
        handle_debug str2bool args sess = sess\<lparr>debug := []\<rparr>)"
proof (intro conjI impI)
  assume "''debug'' \<notin> fst ` set args"
  then have "args_get args ''debug'' = None"
    by (simp add: args_get_def map_of_eq_None_iff)
  then show "handle_debug str2bool args sess = sess"
    by (simp add: handle_debug_def)
next
  assume "args_get args ''debug'' = Some []"
  then show "handle_debug str2bool args sess = sess\<lparr>debug := []\<rparr>"
    by (simp add: handle_debug_def or_empty_id debug_mode_def ALLOWED_DEBUG_MODES_def)
qed

theorem handle_debug_absent_or_empty_witness:
  "''debug'' \<notin> fst ` set [(''menu_id'', ''5'')]
   \<and> handle_debug example_str2bool [(''menu_id'', ''5'')] example_session = example_session
   \<and> args_get [(''debug'', [])] ''debug'' = Some []
   \<and> debug (handle_debug example_str2bool [(''debug'', [])] example_session) = []
   \<and> debug example_session = ''assets''"
  using handle_debug_absent_or_empty [of "[(''menu_id'', ''5'')]" example_str2bool example_session]
        handle_debug_absent_or_empty [of "[(''debug'', [])]" example_str2bool example_session]
  by (simp add: args_get_def example_session_def)

section \<open>Image responses\<close>

lemma missing_image_eq:
  assumes "placeholder_path env mdl fld = PStr path" and "file_open env path = Inr ph"
  shows "missing_image env mdl fld width height
           = Inr (ph, 200, fst (placeholder_size env fld width height),
                  snd (placeholder_size env fld width height))"
  using assms
  by (auto simp: missing_image_def placeholder_def placeholder_path_def placeholder_size_def
        Let_def split: if_splits prod.splits)

text \<open>
  Claim C4, as stated: whenever \<open>binary_content\<close> returns an empty image and the status is
  not passed through, \<open>_content_image_get_response\<close> answers with status 200, never 404.
  It does not: for a missing image (status 404, no download) asked with \<open>width='abc'\<close>, the
  placeholder is read, \<open>int(width)\<close> raises inside the \<open>try\<close>, and the answer is the
  not-found response, whose status is 404.
\<close>

theorem content_image_placeholder_not_found_counterexample:
  "\<not> bytes_truthy None
   \<and> \<not> ((404::int) = 301 \<or> (404::int) = 304 \<or> ((404::int) \<noteq> 200 \<and> truthy PNone))
   \<and> content_image_get_response example_img_env 404 [] None ''res.partner'' ''image_128''
         PNone (PStr ''abc'') (PInt 0) (PBool False) (PInt 0)
       = Inr NotFound
   \<and> status_code NotFound = 404"
  by (simp add: content_image_get_response_def image_or_placeholder_def missing_image_def
        placeholder_def try_image_process_def example_img_env_def example_int_of_str_def)

text \<open>
  Claim C4, amended. When \<open>binary_content\<close> returns an empty image and the status is not
  passed through (not 301 or 304, and not a status other than 200 with a download asked
  for), \<open>_content_image_get_response\<close> opens the placeholder file: the file that the model
  names for the field when the model is in the registry and names one, the static file
  \<open>web/static/img/placeholder.png\<close> otherwise (the name being a string). When opening the
  file raises, that exception propagates. Otherwise \<open>int\<close> converts the width and height
  (those asked for, or those guessed from the field name when neither is given) and the
  quality, and \<open>image_process\<close> is called on the placeholder: when all of them succeed the
  response carries the processed placeholder with HTTP status 200, and when one of them
  raises the response is the generic not-found response.
\<close>

theorem content_image_placeholder_status_200:
  assumes "\<not> bytes_truthy img"
    and "\<not> (status = 301 \<or> status = 304 \<or> (status \<noteq> 200 \<and> truthy dl))"
    and "placeholder_path env mdl fld = PStr path"
    and "placeholder_size env fld width height = (width', height')"
  shows "content_image_get_response env status hdrs img mdl fld dl width height crop quality
           = (case file_open env path of
                Inl e \<Rightarrow> Inl e
              | Inr ph \<Rightarrow>
                  (case py_int (img_int_of_str env) width' of
                     Inl e \<Rightarrow> Inr NotFound
                   | Inr w \<Rightarrow>
                       (case py_int (img_int_of_str env) height' of
                          Inl e \<Rightarrow> Inr NotFound
                        | Inr h \<Rightarrow>
                            (case py_int (img_int_of_str env) quality of
                               Inl e \<Rightarrow> Inr NotFound
                             | Inr q \<Rightarrow>
                                 (case image_process env ph (w, h) crop q of
                                    Inl e \<Rightarrow> Inr NotFound
                                  | Inr content \<Rightarrow>
                                      Inr (Response content
                                             (set_safe_image_headers env hdrs content) 200))))))"
proof (cases "file_open env path")
  case (Inl e)
  then have "missing_image env mdl fld width height = Inl e"
    using assms(3)
    by (auto simp: missing_image_def placeholder_def placeholder_path_def Let_def
          split: if_splits)
  then have "image_or_placeholder env status img mdl fld width height = Inl e"
    using assms(1) by (cases img) (auto simp: image_or_placeholder_def)
  then show ?thesis
    using assms(2) Inl by (auto simp: content_image_get_response_def)
next
  case (Inr ph)
  have "image_or_placeholder env status img mdl fld width height = Inr (ph, 200, width', height')"
    using assms(1,4) missing_image_eq [OF assms(3) Inr, of width height]
    by (cases img) (auto simp: image_or_placeholder_def)
  then show ?thesis
    using assms(2) Inr
    by (auto simp: content_image_get_response_def try_image_process_def make_response_def
          split: sum.splits)
qed

theorem content_image_placeholder_status_200_witness:
  "\<not> bytes_truthy None
   \<and> \<not> ((404::int) = 301 \<or> (404::int) = 304 \<or> ((404::int) \<noteq> 200 \<and> truthy PNone))
   \<and> placeholder_path example_img_env ''res.partner'' ''image_128''
       = PStr ''base/static/img/avatar_grey.png''
   \<and> placeholder_size example_img_env ''image_128'' (PInt 0) (PInt 0) = (PInt 128, PInt 128)
   \<and> file_open example_img_env ''base/static/img/avatar_grey.png'' = Inr [137, 80, 2, 2]
   \<and> py_int (img_int_of_str example_img_env) (PInt 128) = Inr 128
   \<and> py_int (img_int_of_str example_img_env) (PInt 0) = Inr 0
   \<and> image_process example_img_env [137, 80, 2, 2] (128, 128) (PBool False) 0
       = Inr [137, 80, 2, 2]
   \<and> content_image_get_response example_img_env 404 [] None ''res.partner'' ''image_128''
         PNone (PInt 0) (PInt 0) (PBool False) (PInt 0)
       = Inr (Response [137, 80, 2, 2] [(''Content-Length'', PInt 4)] 200)
   \<and> placeholder_path example_img_env ''res.users'' ''image_128''
       = PStr ''web/static/img/placeholder.png''
   \<and> py_int (img_int_of_str example_img_env) (PStr ''abc'') = Inl ValueError
   \<and> content_image_get_response example_img_env 404 [] None ''res.users'' ''image_128''
         PNone (PStr ''abc'') (PInt 0) (PBool False) (PInt 0)
       = Inr NotFound"
proof -
  have 1: "\<not> bytes_truthy None" by simp
  have 2: "\<not> ((404::int) = 301 \<or> (404::int) = 304 \<or> ((404::int) \<noteq> 200 \<and> truthy PNone))"
    by simp
  have 3: "placeholder_path example_img_env ''res.partner'' ''image_128''
             = PStr ''base/static/img/avatar_grey.png''"
    by (simp add: placeholder_path_def example_img_env_def)
  have 4: "placeholder_size example_img_env ''image_128'' (PInt 0) (PInt 0) = (PInt 128, PInt 128)"
    by (simp add: placeholder_size_def example_img_env_def)
  have 5: "file_open example_img_env ''base/static/img/avatar_grey.png'' = Inr [137, 80, 2, 2]"
    by (simp add: example_img_env_def)
  have 6: "image_process example_img_env [137, 80, 2, 2] (128, 128) (PBool False) 0
             = Inr [137, 80, 2, 2]"
    by (simp add: example_img_env_def)
  have 7: "set_safe_image_headers example_img_env [] [137, 80, 2, 2]
             = [(''Content-Length'', PInt 4)]"
    by (simp add: example_img_env_def)
  have 8: "placeholder_path example_img_env ''res.users'' ''image_128''
             = PStr ''web/static/img/placeholder.png''"
    by (simp add: placeholder_path_def example_img_env_def)
  have 9: "placeholder_size example_img_env ''image_128'' (PStr ''abc'') (PInt 0)
             = (PStr ''abc'', PInt 0)"
    by (simp add: placeholder_size_def)
  have 10: "file_open example_img_env ''web/static/img/placeholder.png'' = Inr [137, 80, 1]"
    by (simp add: example_img_env_def)
  have 11: "py_int (img_int_of_str example_img_env) (PStr ''abc'') = Inl ValueError"
    by (simp add: example_img_env_def example_int_of_str_def)
  show ?thesis
    using content_image_placeholder_status_200
            [OF 1 2 3 4, where hdrs = "[]" and crop = "PBool False" and quality = "PInt 0"]
          content_image_placeholder_status_200
            [OF 1 2 8 9, where hdrs = "[]" and crop = "PBool False" and quality = "PInt 0"]
          1 2 3 4 5 6 7 8 10 11
    by simp
qed

text \<open>
  Claim C5. When the status is not passed through and \<open>image_process\<close>, called on the image
  (or on the placeholder that stands in for a missing one) with the converted width,
  height and quality, raises an exception, \<open>_content_image_get_response\<close> returns the
  generic not-found response; the exception does not propagate.
\<close>

theorem content_image_not_found_when_image_process_raises:
  assumes "\<not> (status = 301 \<or> status = 304 \<or> (status \<noteq> 200 \<and> truthy dl))"
    and "image_or_placeholder env status img mdl fld width height
           = Inr (img', status', width', height')"
    and "py_int (img_int_of_str env) width' = Inr w"
    and "py_int (img_int_of_str env) height' = Inr h"
    and "py_int (img_int_of_str env) quality = Inr q"
    and "image_process env img' (w, h) crop q = Inl e"
  shows "content_image_get_response env status hdrs img mdl fld dl width height crop quality
           = Inr NotFound"
  using assms by (auto simp: content_image_get_response_def try_image_process_def)

theorem content_image_not_found_when_image_process_raises_witness:
  "\<not> ((200::int) = 301 \<or> (200::int) = 304 \<or> ((200::int) \<noteq> 200 \<and> truthy PNone))
   \<and> image_or_placeholder example_img_env 200 (Some [0, 0]) ''ir.attachment'' ''raw''
        (PStr ''64'') (PInt 64)
       = Inr ([0, 0], 200, PStr ''64'', PInt 64)
   \<and> py_int (img_int_of_str example_img_env) (PStr ''64'') = Inr 64
   \<and> py_int (img_int_of_str example_img_env) (PInt 64) = Inr 64
   \<and> py_int (img_int_of_str example_img_env) (PInt 0) = Inr 0
   \<and> image_process example_img_env [0, 0] (64, 64) (PBool False) 0
       = Inl (Raised ''cannot identify image'')
   \<and> content_image_get_response example_img_env 200 [] (Some [0, 0]) ''ir.attachment'' ''raw''
        PNone (PStr ''64'') (PInt 64) (PBool False) (PInt 0)
      = Inr NotFound"
proof -
  have 1: "\<not> ((200::int) = 301 \<or> (200::int) = 304 \<or> ((200::int) \<noteq> 200 \<and> truthy PNone))"
    by simp
  have 2: "image_or_placeholder example_img_env 200 (Some [0, 0]) ''ir.attachment'' ''raw''
             (PStr ''64'') (PInt 64)
       = Inr ([0, 0], 200, PStr ''64'', PInt 64)"
    by (simp add: image_or_placeholder_def)
  have 3: "py_int (img_int_of_str example_img_env) (PStr ''64'') = Inr 64"
    by (simp add: example_img_env_def example_int_of_str_def)
  have 4: "py_int (img_int_of_str example_img_env) (PInt 64) = Inr 64" by simp
  have 5: "py_int (img_int_of_str example_img_env) (PInt 0) = Inr 0" by simp
  have 6: "image_process example_img_env [0, 0] (64, 64) (PBool False) 0
             = Inl (Raised ''cannot identify image'')"
    by (simp add: example_img_env_def)
  show ?thesis
    using content_image_not_found_when_image_process_raises [OF 1 2 3 4 5 6, of "[]"]
          1 2 3 4 5 6
    by simp
qed

text \<open>
  Claim C10. When \<open>binary_content\<close> reports status 301 or 304, or a status other than 200
  while a download is asked for, \<open>_content_image_get_response\<close> returns what
  \<open>_response_by_status\<close> builds from that status, the headers and the image as received.
  No placeholder is substituted: the result is the same whatever the registry and the
  placeholder files are.
\<close>

theorem content_image_passes_status_through:
  assumes "status = 301 \<or> status = 304 \<or> (status \<noteq> 200 \<and> truthy dl)"
  shows "content_image_get_response env status hdrs img mdl fld dl width height crop quality
           = Inr (response_by_status env status hdrs img)
         \<and> content_image_get_response
             (env\<lparr>has_model := hm, get_placeholder_filename := gp, file_open := fo\<rparr>)
             status hdrs img mdl fld dl width height crop quality
           = Inr (response_by_status env status hdrs img)"
  using assms by (auto simp: content_image_get_response_def)

theorem content_image_passes_status_through_witness:
  "(304::int) = 304
   \<and> content_image_get_response example_img_env 304 [] None ''res.partner'' ''image_128''
        PNone (PInt 0) (PInt 0) (PBool False) (PInt 0)
      = Inr (Response [] [] 304)
   \<and> (404::int) \<noteq> 200 \<and> truthy (PStr ''true'')
   \<and> content_image_get_response example_img_env 404 [] None ''res.partner'' ''image_128''
        (PStr ''true'') (PInt 0) (PInt 0) (PBool False) (PInt 0)
      = Inr NotFound"
  using content_image_passes_status_through
          [of 304 PNone example_img_env "[]" None "''res.partner''" "''image_128''"
              "PInt 0" "PInt 0" "PBool False" "PInt 0"]
        content_image_passes_status_through
          [of 404 "PStr ''true''" example_img_env "[]" None "''res.partner''" "''image_128''"
              "PInt 0" "PInt 0" "PBool False" "PInt 0"]
  by (simp add: example_img_env_def)

section \<open>Binary content\<close>

text \<open>
  Claim C6. When \<open>binary_content\<close> reports status 200 with a byte string as content,
  \<open>_get_content_common\<close> returns the response made of that content and of the headers
  received followed by the entry \<open>('Content-Length', n)\<close>, \<open>n\<close> the number of bytes of the
  content: the headers of the response include a \<open>Content-Length\<close> equal to the byte
  length of its body. For every other status it returns what \<open>_response_by_status\<close> builds from the
  status, the headers as received (no \<open>Content-Length\<close> appended) and the content.
\<close>

theorem get_content_common_content_length:
  assumes "binary_content env
             \<lparr>bc_xmlid = xmlid a, bc_model = model a, bc_id = res_id a, bc_field = field a,
              bc_unique = unique a, bc_filename = filename a,
              bc_filename_field = filename_field a, bc_download = download a,
              bc_mimetype = mimetype a, bc_default_mimetype = None,
              bc_access_token = access_token a\<rparr> = Inr (status, hdrs, content)"
  shows "(status = 200 \<longrightarrow> content = Some b \<longrightarrow>
            get_content_common env a
              = Inr (Response b (hdrs @ [(''Content-Length'', PInt (int (length b)))]) 200)
            \<and> (case get_content_common env a of
                 Inl e \<Rightarrow> False
               | Inr r \<Rightarrow> (''Content-Length'', PInt (int (length (response_body r))))
                           \<in> set (response_headers r)))
         \<and> (status \<noteq> 200 \<longrightarrow>
              get_content_common env a = Inr (response_by_status env status hdrs content))"
  using assms by (auto simp: get_content_common_def make_response_def)

theorem get_content_common_content_length_witness:
  "binary_content example_img_env
     \<lparr>bc_xmlid = PNone, bc_model = ''ir.attachment'', bc_id = PInt 7, bc_field = ''datas'',
      bc_unique = PNone, bc_filename = PNone, bc_filename_field = PStr ''name'',
      bc_download = PNone, bc_mimetype = PNone, bc_default_mimetype = None,
      bc_access_token = PNone\<rparr>
     = Inr (200, [(''Content-Type'', PStr ''image/png'')], Some [137, 80, 78, 71, 13])
   \<and> get_content_common example_img_env example_common_args
     = Inr (Response [137, 80, 78, 71, 13]
              [(''Content-Type'', PStr ''image/png''), (''Content-Length'', PInt 5)] 200)
   \<and> binary_content example_img_env
     \<lparr>bc_xmlid = PNone, bc_model = ''ir.attachment'', bc_id = PInt 8, bc_field = ''datas'',
      bc_unique = PNone, bc_filename = PNone, bc_filename_field = PStr ''name'',
      bc_download = PNone, bc_mimetype = PNone, bc_default_mimetype = None,
      bc_access_token = PNone\<rparr>
     = Inr (404, [], None)
   \<and> get_content_common example_img_env (example_common_args\<lparr>res_id := PInt 8\<rparr>)
     = Inr NotFound"
proof -
  have b7: "binary_content example_img_env
     \<lparr>bc_xmlid = xmlid example_common_args, bc_model = model example_common_args,
      bc_id = res_id example_common_args, bc_field = field example_common_args,
      bc_unique = unique example_common_args, bc_filename = filename example_common_args,
      bc_filename_field = filename_field example_common_args,
      bc_download = download example_common_args, bc_mimetype = mimetype example_common_args,
      bc_default_mimetype = None, bc_access_token = access_token example_common_args\<rparr>
     = Inr (200, [(''Content-Type'', PStr ''image/png'')], Some [137, 80, 78, 71, 13])"
    by (simp add: example_img_env_def example_common_args_def)
  let ?a8 = "example_common_args\<lparr>res_id := PInt 8\<rparr>"
  have b8: "binary_content example_img_env
     \<lparr>bc_xmlid = xmlid ?a8, bc_model = model ?a8, bc_id = res_id ?a8, bc_field = field ?a8,
      bc_unique = unique ?a8, bc_filename = filename ?a8,
      bc_filename_field = filename_field ?a8, bc_download = download ?a8,
      bc_mimetype = mimetype ?a8, bc_default_mimetype = None,
      bc_access_token = access_token ?a8\<rparr>
     = Inr (404, [], None)"
    by (simp add: example_img_env_def example_common_args_def)
  have r: "response_by_status example_img_env 404 [] None = NotFound"
    by (simp add: example_img_env_def)
  show ?thesis
    using get_content_common_content_length [OF b7, of "[137, 80, 78, 71, 13]"]
          get_content_common_content_length [OF b8] b7 b8 r
    by (simp add: example_common_args_def)
qed

section \<open>Facts about dictionaries\<close>

lemma dict_get_dict_set:
  "dict_get (dict_set d k v) k' = (if k' = k then Some v else dict_get d k')"
  by (induction d) auto

lemma dict_get_append:
  "dict_get (d @ e) k = (case dict_get d k of Some v \<Rightarrow> Some v | None \<Rightarrow> dict_get e k)"
  by (induction d) auto

lemma dict_get_dict_update:
  "dict_get (dict_update d e) k
     = (case dict_get (rev e) k of Some v \<Rightarrow> Some v | None \<Rightarrow> dict_get d k)"
  unfolding dict_update_def
proof (induction e arbitrary: d)
  case Nil
  then show ?case by simp
next
  case (Cons x e)
  obtain k' v' where x: "x = (k', v')" by (cases x)
  show ?case
    by (simp add: Cons.IH x dict_get_dict_set dict_get_append split: option.splits)
qed

lemma dict_set_fresh: "k \<notin> fst ` set d \<Longrightarrow> dict_set d k v = d @ [(k, v)]"
  by (induction d) auto

lemma dict_update_distinct: "distinct (map fst (d @ e)) \<Longrightarrow> dict_update d e = d @ e"
  unfolding dict_update_def
proof (induction e arbitrary: d)
  case Nil
  then show ?case by simp
next
  case (Cons x e)
  obtain k v where x: "x = (k, v)" by (cases x)
  from Cons.prems have fresh: "k \<notin> fst ` set d" by (auto simp: x)
  from Cons.prems have "distinct (map fst ((d @ [(k, v)]) @ e))" by (auto simp: x)
  from Cons.IH [OF this] show ?case by (simp add: x dict_set_fresh [OF fresh])
qed

lemma set_dict_set: "set (dict_set d k v) \<subseteq> insert (k, v) (set d)"
  by (induction d) (auto split: if_splits)

lemma set_dict_update: "set (dict_update d e) \<subseteq> set d \<union> set e"
  unfolding dict_update_def
proof (induction e arbitrary: d)
  case Nil
  then show ?case by simp
next
  case (Cons x e)
  obtain k v where x: "x = (k, v)" by (cases x)
  show ?case using Cons.IH [of "dict_set d k v"] set_dict_set [of d k v]
    by (auto simp: x)
qed

lemma map_fst_dict_set:
  "map fst (dict_set d k v) = (if k \<in> fst ` set d then map fst d else map fst d @ [k])"
  by (induction d) force+

lemma keys_dict_set: "fst ` set (dict_set d k v) = insert k (fst ` set d)"
proof -
  have "set (map fst (dict_set d k v)) = insert k (fst ` set d)"
    unfolding map_fst_dict_set by auto
  then show ?thesis by simp
qed

lemma keys_dict_update: "fst ` set (dict_update d e) = fst ` set d \<union> fst ` set e"
  unfolding dict_update_def
proof (induction e arbitrary: d)
  case Nil
  then show ?case by simp
next
  case (Cons x e)
  obtain k v where x: "x = (k, v)" by (cases x)
  show ?case by (simp add: Cons.IH x keys_dict_set)
qed

lemma distinct_dict_set: "distinct (map fst d) \<Longrightarrow> distinct (map fst (dict_set d k v))"
  unfolding map_fst_dict_set by simp

lemma distinct_dict_update: "distinct (map fst d) \<Longrightarrow> distinct (map fst (dict_update d e))"
  unfolding dict_update_def
proof (induction e arbitrary: d)
  case Nil
  then show ?case by simp
next
  case (Cons x e)
  obtain k v where x: "x = (k, v)" by (cases x)
  show ?case using Cons.IH [of "dict_set d k v"] Cons.prems by (simp add: x distinct_dict_set)
qed

lemma dict_get_member: "distinct (map fst d) \<Longrightarrow> (k, v) \<in> set d \<Longrightarrow> dict_get d k = Some v"
  by (induction d) (auto simp: rev_image_eqI)

section \<open>Currencies\<close>

text \<open>
  Claim C8. \<open>get_currencies\<close> returns a dictionary whose keys are the ids of the currency
  records that \<open>search([])\<close> finds, each key once. Every value is, for a record with that
  id, the dictionary with exactly the keys \<open>'symbol'\<close>, \<open>'position'\<close> and \<open>'digits'\<close>, in
  which \<open>'digits'\<close> is the two-element list \<open>[69, decimal_places]\<close>; and as the ids of the
  records found are distinct, the id of each record maps to the dictionary of that record.
\<close>

theorem get_currencies_entries:
  "fst ` set (get_currencies env) = (\<lambda>c. KInt (cur_id c)) ` set (currency_rows env)
   \<and> distinct (map fst (get_currencies env))
   \<and> (\<forall>(k, v) \<in> set (get_currencies env). \<exists>c \<in> set (currency_rows env).
         k = KInt (cur_id c)
         \<and> v = PDict [(KStr ''symbol'', cur_symbol c),
                      (KStr ''position'', cur_position c),
                      (KStr ''digits'', PList [PInt 69, cur_decimal_places c])])
   \<and> (distinct (map cur_id (currency_rows env)) \<longrightarrow>
        (\<forall>c \<in> set (currency_rows env).
           dict_get (get_currencies env) (KInt (cur_id c))
             = Some (PDict [(KStr ''symbol'', cur_symbol c),
                            (KStr ''position'', cur_position c),
                            (KStr ''digits'', PList [PInt 69, cur_decimal_places c])])))"
proof (intro conjI impI)
  let ?items = "map currency_entry (currency_rows env)"
  show "fst ` set (get_currencies env) = (\<lambda>c. KInt (cur_id c)) ` set (currency_rows env)"
    by (simp add: get_currencies_def dict_of_def keys_dict_update image_image currency_entry_def)
  show d: "distinct (map fst (get_currencies env))"
    by (simp add: get_currencies_def dict_of_def distinct_dict_update)
  have sub: "set (get_currencies env) \<subseteq> set ?items"
    using set_dict_update [of "[]" ?items] by (simp add: get_currencies_def dict_of_def)
  show "\<forall>(k, v) \<in> set (get_currencies env). \<exists>c \<in> set (currency_rows env).
         k = KInt (cur_id c)
         \<and> v = PDict [(KStr ''symbol'', cur_symbol c),
                      (KStr ''position'', cur_position c),
                      (KStr ''digits'', PList [PInt 69, cur_decimal_places c])]"
    using sub by (auto simp: currency_entry_def)
  assume ids: "distinct (map cur_id (currency_rows env))"
  have "map fst ?items = map (\<lambda>c. KInt (cur_id c)) (currency_rows env)"
    by (simp add: currency_entry_def)
  also have "\<dots> = map KInt (map cur_id (currency_rows env))" by simp
  finally have di: "distinct (map fst ?items)"
    using ids by (simp only: distinct_map) (auto simp: inj_on_def)
  then have same: "get_currencies env = ?items"
    using dict_update_distinct [of "[]" ?items] by (simp add: get_currencies_def dict_of_def)
  show "\<forall>c \<in> set (currency_rows env).
           dict_get (get_currencies env) (KInt (cur_id c))
             = Some (PDict [(KStr ''symbol'', cur_symbol c),
                            (KStr ''position'', cur_position c),
                            (KStr ''digits'', PList [PInt 69, cur_decimal_places c])])"
  proof
    fix c assume "c \<in> set (currency_rows env)"
    then have "currency_entry c \<in> set ?items" by simp
    then show "dict_get (get_currencies env) (KInt (cur_id c))
             = Some (PDict [(KStr ''symbol'', cur_symbol c),
                            (KStr ''position'', cur_position c),
                            (KStr ''digits'', PList [PInt 69, cur_decimal_places c])])"
      using dict_get_member [OF di, of "KInt (cur_id c)" "snd (currency_entry c)"]
      by (simp add: same currency_entry_def)
  qed
qed

theorem get_currencies_entries_witness:
  "distinct (map cur_id (currency_rows example_sess_env))
   \<and> \<lparr>cur_id = 2, cur_symbol = PStr ''$'', cur_position = PStr ''before'',
       cur_decimal_places = PInt 2\<rparr> \<in> set (currency_rows example_sess_env)
   \<and> dict_get (get_currencies example_sess_env) (KInt 2)
       = Some (PDict [(KStr ''symbol'', PStr ''$''),
                      (KStr ''position'', PStr ''before''),
                      (KStr ''digits'', PList [PInt 69, PInt 2])])
   \<and> fst ` set (get_currencies example_sess_env) = {KInt 1, KInt 2}"
proof -
  let ?c = "\<lparr>cur_id = 2, cur_symbol = PStr ''$'', cur_position = PStr ''before'',
             cur_decimal_places = PInt 2\<rparr>"
  have d: "distinct (map cur_id (currency_rows example_sess_env))"
    by (simp add: example_sess_env_def)
  have m: "?c \<in> set (currency_rows example_sess_env)"
    by (simp add: example_sess_env_def)
  have k: "(\<lambda>c. KInt (cur_id c)) ` set (currency_rows example_sess_env) = {KInt 1, KInt 2}"
    by (simp add: example_sess_env_def)
  from get_currencies_entries [of example_sess_env] d m
  have "dict_get (get_currencies example_sess_env) (KInt (cur_id ?c))
       = Some (PDict [(KStr ''symbol'', cur_symbol ?c),
                      (KStr ''position'', cur_position ?c),
                      (KStr ''digits'', PList [PInt 69, cur_decimal_places ?c])])"
    by blast
  moreover from get_currencies_entries [of example_sess_env] k
  have "fst ` set (get_currencies example_sess_env) = {KInt 1, KInt 2}" by simp
  ultimately show ?thesis using d m by simp
qed

section \<open>Session info: the menus hash and the effect on the session\<close>

lemma internal_user_info_load_menus:
  assumes "internal_user_info env sess ch info = Inr info'"
  shows "\<exists>menu_json cache_hashes.
           json_dumps env (ordered_menus (load_menus env (debug sess))) = Inr menu_json
         \<and> dict_get info' (KStr ''cache_hashes'') = Some (PDict cache_hashes)
         \<and> dict_get cache_hashes (KStr ''load_menus'')
             = Some (PStr (take 64 (sha512_hexdigest env (encode env menu_json))))"
proof (cases "json_dumps env (ordered_menus (load_menus env (debug sess)))")
  case (Inl e)
  with assms show ?thesis by (simp add: internal_user_info_def)
next
  case (Inr menu_json)
  let ?ch = "dict_update ch
               [(KStr ''load_menus'', PStr (take 64 (sha512_hexdigest env (encode env menu_json)))),
                (KStr ''qweb'', get_qweb_templates_checksum env (debug sess) ''web.assets_qweb'')]"
  have "dict_get info' (KStr ''cache_hashes'') = Some (PDict ?ch)"
    using assms Inr
    by (auto simp: internal_user_info_def Let_def dict_get_dict_update dict_get_dict_set)
  moreover have "dict_get ?ch (KStr ''load_menus'')
             = Some (PStr (take 64 (sha512_hexdigest env (encode env menu_json))))"
    by (simp add: dict_get_dict_update)
  ultimately show ?thesis using Inr by blast
qed

lemma build_session_info_internal:
  assumes "has_group (env_user env) ''base.group_user''"
    and "build_session_info env sess' user_context = Inr info"
  shows "\<exists>ch info0. internal_user_info env sess' ch info0 = Inr info"
  using assms
  by (auto simp: build_session_info_def Let_def split: sum.splits if_splits)

lemma internal_user_info_returns:
  assumes "\<not> isl (json_dumps env (ordered_menus (load_menus env (debug sess))))"
  shows "\<not> isl (internal_user_info env sess ch info)"
  using assms by (auto simp: internal_user_info_def Let_def split: sum.splits)

lemma build_session_info_returns:
  assumes "has_group (env_user env) ''base.group_user''"
    and "\<not> isl (py_int (int_of_str env)
                 (get_param env ''web.max_file_upload_size'' (PInt (128 * 1024 * 1024))))"
    and "\<not> isl (py_int (int_of_str env) (get_param env ''web.active_ids_limit'' (PStr ''20000'')))"
    and "truthy (uid sess') \<longrightarrow> dict_get (session_context sess') (KStr ''lang'') \<noteq> None"
    and "\<not> isl (json_dumps env (ordered_menus (load_menus env (debug sess'))))"
  shows "\<not> isl (build_session_info env sess' user_context)"
  using assms(1-4) internal_user_info_returns [OF assms(5)]
  by (auto simp: build_session_info_def Let_def dict_item_def split: sum.splits option.splits)

lemma dict_get_dict_of: "dict_get (dict_of items) k = dict_get (rev items) k"
  by (simp add: dict_of_def dict_get_dict_update split: option.splits)

lemma ordered_menus_string_keys:
  "distinct (map fst (ordered_menus menus))
   \<and> (\<forall>k. dict_get (ordered_menus menus) k
             = dict_get (rev (map (\<lambda>(k, v). (KStr (py_str k), v)) menus)) k)
   \<and> (distinct (map (\<lambda>(k, v). py_str k) menus) \<longrightarrow>
        ordered_menus menus = map (\<lambda>(k, v). (KStr (py_str k), v)) menus)"
proof (intro conjI allI impI)
  let ?items = "map (\<lambda>(k, v). (KStr (py_str k), v)) menus"
  show "distinct (map fst (ordered_menus menus))"
    by (simp add: ordered_menus_def dict_of_def distinct_dict_update)
  show "dict_get (ordered_menus menus) k = dict_get (rev ?items) k" for k
    by (simp add: ordered_menus_def dict_get_dict_of)
  assume d: "distinct (map (\<lambda>(k, v). py_str k) menus)"
  have "map fst ?items = map KStr (map (\<lambda>(k, v). py_str k) menus)"
    by (simp add: case_prod_beta)
  then have "distinct (map fst ?items)"
    using d by (simp only: distinct_map) (auto simp: inj_on_def)
  then show "ordered_menus menus = ?items"
    using dict_update_distinct [of "[]" ?items] by (simp add: ordered_menus_def dict_of_def)
qed

text \<open>
  Claim C3. For a user in the group \<open>base.group_user\<close>, whenever \<open>session_info\<close> returns,
  the entry \<open>'load_menus'\<close> of its \<open>cache_hashes\<close> is the first 64 characters of the SHA-512
  hexadecimal digest of the UTF-8 encoding of the JSON serialisation (\<open>sort_keys=True\<close>) of
  the loaded menu data with its keys converted to strings: of a dictionary with distinct
  keys in which every key is \<open>str(k)\<close> for a key \<open>k\<close> of the menus loaded for the session's
  debug mode and maps to the value of (the last) such \<open>k\<close>, item for item the menus when
  their keys have distinct strings. And \<open>session_info\<close> does return when the two
  configuration parameters convert to integers, the session's context has a \<open>'lang'\<close> for a
  logged-in user, and that dictionary serialises.
\<close>

theorem session_info_load_menus_hash:
  assumes "has_group (env_user env) ''base.group_user''"
  shows "(\<forall>info. snd (session_info env sess) = Inr info \<longrightarrow>
           (\<exists>string_keyed menu_json cache_hashes.
              distinct (map fst string_keyed)
            \<and> (\<forall>k. dict_get string_keyed k
                      = dict_get (rev (map (\<lambda>(k, v). (KStr (py_str k), v))
                                        (load_menus env (debug sess)))) k)
            \<and> (distinct (map (\<lambda>(k, v). py_str k) (load_menus env (debug sess))) \<longrightarrow>
                 string_keyed
                   = map (\<lambda>(k, v). (KStr (py_str k), v)) (load_menus env (debug sess)))
            \<and> json_dumps env string_keyed = Inr menu_json
            \<and> dict_get info (KStr ''cache_hashes'') = Some (PDict cache_hashes)
            \<and> dict_get cache_hashes (KStr ''load_menus'')
                = Some (PStr (take 64 (sha512_hexdigest env (encode env menu_json))))))
       \<and> (\<not> isl (py_int (int_of_str env)
                    (get_param env ''web.max_file_upload_size'' (PInt (128 * 1024 * 1024))))
          \<and> \<not> isl (py_int (int_of_str env)
                    (get_param env ''web.active_ids_limit'' (PStr ''20000'')))
          \<and> (truthy (uid sess) \<longrightarrow>
                dict_get (session_context (fst (session_info env sess))) (KStr ''lang'') \<noteq> None)
          \<and> (\<forall>string_keyed.
                distinct (map fst string_keyed)
                \<and> (\<forall>k. dict_get string_keyed k
                          = dict_get (rev (map (\<lambda>(k, v). (KStr (py_str k), v))
                                            (load_menus env (debug sess)))) k)
                \<longrightarrow> \<not> isl (json_dumps env string_keyed))
          \<longrightarrow> \<not> isl (snd (session_info env sess)))"
proof (intro conjI allI impI)
  obtain uc sess' where sc: "sync_context env sess = (uc, sess')"
    by (cases "sync_context env sess")
  then have dbg: "debug sess' = debug sess" and u: "uid sess' = uid sess"
    by (auto simp: sync_context_def Let_def split: if_splits)
  have si: "session_info env sess = (sess', build_session_info env sess' uc)"
    by (simp add: session_info_def sc)
  note om = ordered_menus_string_keys [of "load_menus env (debug sess)"]
  {
    fix info assume "snd (session_info env sess) = Inr info"
    then have "build_session_info env sess' uc = Inr info" by (simp add: si)
    from build_session_info_internal [OF assms this]
    obtain ch info0 where "internal_user_info env sess' ch info0 = Inr info" by blast
    from internal_user_info_load_menus [OF this]
    obtain menu_json cache_hashes where
      "json_dumps env (ordered_menus (load_menus env (debug sess))) = Inr menu_json"
      "dict_get info (KStr ''cache_hashes'') = Some (PDict cache_hashes)"
      "dict_get cache_hashes (KStr ''load_menus'')
         = Some (PStr (take 64 (sha512_hexdigest env (encode env menu_json))))"
      by (auto simp: dbg)
    then show "\<exists>string_keyed menu_json cache_hashes.
              distinct (map fst string_keyed)
            \<and> (\<forall>k. dict_get string_keyed k
                      = dict_get (rev (map (\<lambda>(k, v). (KStr (py_str k), v))
                                        (load_menus env (debug sess)))) k)
            \<and> (distinct (map (\<lambda>(k, v). py_str k) (load_menus env (debug sess))) \<longrightarrow>
                 string_keyed
                   = map (\<lambda>(k, v). (KStr (py_str k), v)) (load_menus env (debug sess)))
            \<and> json_dumps env string_keyed = Inr menu_json
            \<and> dict_get info (KStr ''cache_hashes'') = Some (PDict cache_hashes)
            \<and> dict_get cache_hashes (KStr ''load_menus'')
                = Some (PStr (take 64 (sha512_hexdigest env (encode env menu_json))))"
      using om by blast
  next
    assume c: "\<not> isl (py_int (int_of_str env)
                    (get_param env ''web.max_file_upload_size'' (PInt (128 * 1024 * 1024))))
          \<and> \<not> isl (py_int (int_of_str env)
                    (get_param env ''web.active_ids_limit'' (PStr ''20000'')))
          \<and> (truthy (uid sess) \<longrightarrow>
                dict_get (session_context (fst (session_info env sess))) (KStr ''lang'') \<noteq> None)
          \<and> (\<forall>string_keyed.
                distinct (map fst string_keyed)
                \<and> (\<forall>k. dict_get string_keyed k
                          = dict_get (rev (map (\<lambda>(k, v). (KStr (py_str k), v))
                                            (load_menus env (debug sess)))) k)
                \<longrightarrow> \<not> isl (json_dumps env string_keyed))"
    then have j: "\<not> isl (json_dumps env (ordered_menus (load_menus env (debug sess'))))"
      using om by (simp add: dbg)
    have "\<not> isl (build_session_info env sess' uc)"
      using c j by (intro build_session_info_returns [OF assms]) (simp_all add: si dbg u)
    then show "\<not> isl (snd (session_info env sess))" by (simp add: si)
  }
qed

theorem session_info_load_menus_hash_witness:
  "\<forall>dumps enc digest.
     has_group
       (env_user (example_sess_env
          \<lparr>json_dumps := \<lambda>d. Inr (dumps d), encode := enc, sha512_hexdigest := digest\<rparr>))
       ''base.group_user''
   \<and> load_menus
       (example_sess_env
          \<lparr>json_dumps := \<lambda>d. Inr (dumps d), encode := enc, sha512_hexdigest := digest\<rparr>)
       (debug example_session)
       = [(KStr ''root'', PDict [(KStr ''children'', PList [PInt 5])]),
          (KInt 5, PDict [(KStr ''name'', PStr ''Settings'')])]
   \<and> (case snd (session_info
                  (example_sess_env
                     \<lparr>json_dumps := \<lambda>d. Inr (dumps d), encode := enc,
                      sha512_hexdigest := digest\<rparr>)
                  example_session) of
         Inl e \<Rightarrow> None
       | Inr info \<Rightarrow>
           (case dict_get info (KStr ''cache_hashes'') of
              Some (PDict cache_hashes) \<Rightarrow> dict_get cache_hashes (KStr ''load_menus'')
            | _ \<Rightarrow> None))
       = Some (PStr (take 64 (digest (enc (dumps
                 [(KStr ''root'', PDict [(KStr ''children'', PList [PInt 5])]),
                  (KStr ''5'', PDict [(KStr ''name'', PStr ''Settings'')])])))))"
proof (intro allI)
  fix dumps :: "pydict \<Rightarrow> string" and enc :: "string \<Rightarrow> bytes" and digest :: "bytes \<Rightarrow> string"
  let ?E = "example_sess_env
              \<lparr>json_dumps := \<lambda>d. Inr (dumps d), encode := enc, sha512_hexdigest := digest\<rparr>"
  let ?menus = "[(KStr ''root'', PDict [(KStr ''children'', PList [PInt 5])]),
                 (KInt 5, PDict [(KStr ''name'', PStr ''Settings'')])]"
  let ?keyed = "[(KStr ''root'', PDict [(KStr ''children'', PList [PInt 5])]),
                 (KStr ''5'', PDict [(KStr ''name'', PStr ''Settings'')])]"
  have g: "has_group (env_user ?E) ''base.group_user''"
    by (simp add: example_sess_env_def example_user_def)
  have m: "load_menus ?E (debug example_session) = ?menus"
    by (simp add: example_sess_env_def)
  have five: "str_of_int 5 = ''5''"
    by code_simp
  have keyed: "map (\<lambda>(k, v). (KStr (py_str k), v)) ?menus = ?keyed"
    by (simp add: five)
  have dk: "distinct (map (\<lambda>(k, v). py_str k) ?menus)"
    by (simp add: five)
  have c1: "\<not> isl (py_int (int_of_str ?E)
                    (get_param ?E ''web.max_file_upload_size'' (PInt (128 * 1024 * 1024))))"
    by (simp add: example_sess_env_def)
  have c2: "\<not> isl (py_int (int_of_str ?E) (get_param ?E ''web.active_ids_limit'' (PStr ''20000'')))"
    by (simp add: example_sess_env_def example_int_of_str_def)
  have c3: "dict_get (session_context (fst (session_info ?E example_session))) (KStr ''lang'')
              \<noteq> None"
    by (simp add: session_info_def sync_context_def example_sess_env_def example_session_def
          Let_def)
  have c4: "\<not> isl (json_dumps ?E d)" for d
    by simp
  from session_info_load_menus_hash [OF g, of example_session] c1 c2 c3 c4
  have r: "\<not> isl (snd (session_info ?E example_session))" by blast
  then obtain info where i: "snd (session_info ?E example_session) = Inr info"
    by (cases "snd (session_info ?E example_session)") auto
  with session_info_load_menus_hash [OF g, of example_session]
  obtain string_keyed menu_json cache_hashes where
    sk: "distinct (map (\<lambda>(k, v). py_str k) (load_menus ?E (debug example_session))) \<longrightarrow>
           string_keyed
             = map (\<lambda>(k, v). (KStr (py_str k), v)) (load_menus ?E (debug example_session))"
    and js: "json_dumps ?E string_keyed = Inr menu_json"
    and ch: "dict_get info (KStr ''cache_hashes'') = Some (PDict cache_hashes)"
    and lm: "dict_get cache_hashes (KStr ''load_menus'')
               = Some (PStr (take 64 (sha512_hexdigest ?E (encode ?E menu_json))))"
    by blast
  from sk dk have "string_keyed = ?keyed"
    by (simp only: m keyed)
  with js have "menu_json = dumps ?keyed" by simp
  with lm have "dict_get cache_hashes (KStr ''load_menus'')
                  = Some (PStr (take 64 (digest (enc (dumps ?keyed)))))"
    by simp
  with g m i ch
  show "has_group (env_user ?E) ''base.group_user''
   \<and> load_menus ?E (debug example_session) = ?menus
   \<and> (case snd (session_info ?E example_session) of
         Inl e \<Rightarrow> None
       | Inr info \<Rightarrow>
           (case dict_get info (KStr ''cache_hashes'') of
              Some (PDict cache_hashes) \<Rightarrow> dict_get cache_hashes (KStr ''load_menus'')
            | _ \<Rightarrow> None))
       = Some (PStr (take 64 (digest (enc (dumps ?keyed)))))"
    by simp
qed

text \<open>
  Claim C7, as stated: the session is the same after \<open>session_info\<close> as before it, in
  particular \<open>request.session.context\<close>. It is not: for a logged-in user whose context
  (\<open>res.users.context_get()\<close>, here with the language \<open>fr_FR\<close>) differs from the context kept
  in the session (language \<open>en_US\<close>), \<open>session_info\<close> stores the user's context in the
  session.
\<close>

theorem session_info_changes_context_counterexample:
  "session_context (fst (session_info example_sess_env example_session))
     = [(KStr ''lang'', PStr ''fr_FR''), (KStr ''tz'', PBool False), (KStr ''uid'', PInt 2)]
   \<and> session_context example_session
     = [(KStr ''lang'', PStr ''en_US''), (KStr ''tz'', PBool False), (KStr ''uid'', PInt 2)]
   \<and> fst (session_info example_sess_env example_session) \<noteq> example_session"
  by (simp add: session_info_def sync_context_def example_sess_env_def example_session_def
        Let_def)

text \<open>
  Claim C7, amended. \<open>session_info\<close> leaves the session as it is, except that for a
  logged-in user (a truthy \<open>session.uid\<close>) whose context from \<open>res.users.context_get()\<close>
  differs from \<open>request.session.context\<close>, it sets \<open>request.session.context\<close> to that user
  context. This holds whether the call returns or raises; the debug mode, the uid and the
  profiling attributes of the session are never changed.
\<close>

theorem session_info_session_effect:
  "fst (session_info env sess)
     = (if truthy (uid sess) \<and> \<not> py_eq (PDict (context_get env)) (PDict (session_context sess))
        then sess\<lparr>session_context := context_get env\<rparr>
        else sess)
   \<and> debug (fst (session_info env sess)) = debug sess
   \<and> uid (fst (session_info env sess)) = uid sess
   \<and> profile_session (fst (session_info env sess)) = profile_session sess
   \<and> profile_collectors (fst (session_info env sess)) = profile_collectors sess
   \<and> profile_params (fst (session_info env sess)) = profile_params sess"
  by (simp add: session_info_def sync_context_def Let_def split: prod.splits)

theorem session_info_session_effect_witness:
  "fst (session_info example_sess_env example_session)
     = example_session\<lparr>session_context := context_get example_sess_env\<rparr>
   \<and> fst (session_info example_sess_env (example_session\<lparr>uid := PNone\<rparr>))
     = example_session\<lparr>uid := PNone\<rparr>"
  using session_info_session_effect [of example_sess_env example_session]
        session_info_session_effect [of example_sess_env "example_session\<lparr>uid := PNone\<rparr>"]
  by (simp add: example_sess_env_def example_session_def)

end
